theory Spec2Isabelle
  imports Main "HOL-Library.Sublist"
begin

section \<open>Values, permissions and compute units\<close>

text \<open>
  The stacks are declarative programs: each constructor builds constructs, mutates some
  of them (\<open>addToRolePolicy\<close>, \<open>addIngressRule\<close>, \<open>addResource\<close>, \<open>addMethod\<close>) and
  declares outputs. A constructor is modelled as a function from its inputs (the ambient
  account and region, the context, its props) to a record of the constructs it leaves
  behind; every mutating call is a function that returns the updated construct, applied
  in the order of the source.

  Purely descriptive props (\<open>description\<close> of functions, gateways and outputs, the code
  asset, layers, log retention) are left out.
\<close>

text \<open>Context values, as \<open>this.node.tryGetContext\<close> can return them (\<open>None\<close> is
  \<open>undefined\<close>).\<close>

datatype json = JString string | JBool bool | JNumber int

type_synonym cdk_context = "string \<rightharpoonup> json"

definition tryGetContext :: "cdk_context \<Rightarrow> string \<Rightarrow> json option" where
  "tryGetContext ctx key = ctx key"

text \<open>
  A configuration value is either known when the stack is synthesised (\<open>Literal\<close>) or a
  reference that the provider resolves when the stack is applied: \<open>Attr c a\<close> is the
  attribute \<open>a\<close> of the construct \<open>c\<close> of the same stack, \<open>ImportValue\<close> another stack's
  export (\<open>cdk.Fn.importValue\<close>), \<open>Join\<close> a template string with references in it.
\<close>

datatype cfn_value =
    Literal string
  | Attr string string
  | ImportValue string
  | Join "cfn_value list"

definition Fn_importValue :: "string \<Rightarrow> cfn_value" where
  "Fn_importValue sharedValueToImport = ImportValue sharedValueToImport"

record cfn_output =
  output_id :: string
  output_value :: cfn_value
  exportName :: "string option"

text \<open>\<open>iam.PolicyStatement\<close>: actions, resources, and conditions as operator, key, value.\<close>

record policy_statement =
  actions :: "string list"
  resources :: "cfn_value list"
  conditions :: "(string \<times> (string \<times> string) list) list"

record iam_role =
  role_id :: string
  assumedBy :: string
  managedPolicies :: "string list"
  statements :: "policy_statement list"

definition addToPolicy :: "iam_role \<Rightarrow> policy_statement \<Rightarrow> iam_role" where
  "addToPolicy r st = r\<lparr>statements := statements r @ [st]\<rparr>"

datatype subnet_type = PUBLIC | PRIVATE_WITH_EGRESS | PRIVATE_ISOLATED

text \<open>Props of \<open>lambda.Function\<close>; an absent prop is \<open>None\<close> or empty.\<close>

record function_props =
  p_functionName :: "string option"
  p_runtime :: string
  p_handler :: string
  p_role :: "iam_role option"
  p_vpc :: "cfn_value option"
  p_vpcSubnets :: "subnet_type option"
  p_securityGroups :: "string list"
  p_timeout :: nat
  p_memorySize :: nat
  p_environment :: "(string \<times> cfn_value) list"

definition FunctionProps :: "string \<Rightarrow> string \<Rightarrow> function_props" where
  "FunctionProps rt h =
     \<lparr>p_functionName = None, p_runtime = rt, p_handler = h, p_role = None, p_vpc = None,
      p_vpcSubnets = None, p_securityGroups = [], p_timeout = 3, p_memorySize = 128,
      p_environment = []\<rparr>"

text \<open>A compute unit. \<open>vpc\<close> is its network attachment: \<open>None\<close> when the function has no
  VPC configuration. Timeouts are in seconds.\<close>

record lambda_function =
  fn_id :: string
  functionName :: "string option"
  runtime :: string
  handler :: string
  vpc :: "cfn_value option"
  vpcSubnets :: "subnet_type option"
  securityGroups :: "string list"
  timeout :: nat
  memorySize :: nat
  environment :: "(string \<times> cfn_value) list"
  role :: iam_role

text \<open>
  \<open>new lambda.Function(scope, id, props)\<close>. The library (aws-cdk-lib, outside the
  repository) gives a function without a \<open>role\<close> prop a service role of its own, with the
  basic execution managed policy, and the VPC access one when the function is attached to
  a network.
\<close>

definition ServiceRole :: "string \<Rightarrow> bool \<Rightarrow> iam_role" where
  "ServiceRole fid in_vpc =
     \<lparr>role_id = fid @ ''/ServiceRole'', assumedBy = ''lambda.amazonaws.com'',
      managedPolicies = ''service-role/AWSLambdaBasicExecutionRole'' #
        (if in_vpc then [''service-role/AWSLambdaVPCAccessExecutionRole''] else []),
      statements = []\<rparr>"

definition Function :: "string \<Rightarrow> function_props \<Rightarrow> lambda_function" where
  "Function fid props =
     \<lparr>fn_id = fid, functionName = p_functionName props, runtime = p_runtime props,
      handler = p_handler props, vpc = p_vpc props, vpcSubnets = p_vpcSubnets props,
      securityGroups = p_securityGroups props, timeout = p_timeout props,
      memorySize = p_memorySize props, environment = p_environment props,
      role = (case p_role props of
                Some r \<Rightarrow> r
              | None \<Rightarrow> ServiceRole fid (p_vpc props \<noteq> None))\<rparr>"

definition addToRolePolicy :: "lambda_function \<Rightarrow> policy_statement \<Rightarrow> lambda_function" where
  "addToRolePolicy f st = f\<lparr>role := addToPolicy (role f) st\<rparr>"

text \<open>The \<open>functionName\<close> attribute of a function: the name its props fix, or else a
  reference to the name the provider generates.\<close>

definition functionName_of :: "lambda_function \<Rightarrow> cfn_value" where
  "functionName_of f =
     (case functionName f of Some n \<Rightarrow> Literal n | None \<Rightarrow> Attr (fn_id f) ''functionName'')"

definition functionArn_of :: "lambda_function \<Rightarrow> cfn_value" where
  "functionArn_of f = Attr (fn_id f) ''functionArn''"

definition env_value :: "lambda_function \<Rightarrow> string \<Rightarrow> cfn_value option" where
  "env_value f key = map_of (environment f) key"

section \<open>Object stores and secrets\<close>

datatype removal_policy = RETAIN | DESTROY | SNAPSHOT

record bucket =
  bucket_id :: string
  bucketName :: string
  versioned :: bool
  removalPolicy :: removal_policy
  autoDeleteObjects :: bool

text \<open>Every bucket of the source fixes its name in its props, so the name and the ARNs
  built from it are known values.\<close>

definition bucketArn :: "bucket \<Rightarrow> string" where
  "bucketArn b = ''arn:aws:s3:::'' @ bucketName b"

definition arnForObjects :: "bucket \<Rightarrow> string \<Rightarrow> string" where
  "arnForObjects b keyPattern = bucketArn b @ ''/'' @ keyPattern"

text \<open>
  \<open>bucket.grantRead(fn)\<close> and \<open>bucket.grantWrite(fn)\<close> are calls into the library
  (aws-cdk-lib, outside the repository). Each adds one statement to the policy of the
  function's role, over the bucket and all its objects, with the library's action tables:
  the read actions for \<open>grantRead\<close>, the delete and put actions for \<open>grantWrite\<close>.
\<close>

definition BUCKET_READ_ACTIONS :: "string list" where
  "BUCKET_READ_ACTIONS = [''s3:GetObject*'', ''s3:GetBucket*'', ''s3:List*'']"

definition BUCKET_PUT_ACTIONS :: "string list" where
  "BUCKET_PUT_ACTIONS =
     [''s3:PutObject'', ''s3:PutObjectLegalHold'', ''s3:PutObjectRetention'',
      ''s3:PutObjectTagging'', ''s3:PutObjectVersionTagging'', ''s3:Abort*'']"

definition BUCKET_DELETE_ACTIONS :: "string list" where
  "BUCKET_DELETE_ACTIONS = [''s3:DeleteObject*'']"

definition grantRead :: "bucket \<Rightarrow> lambda_function \<Rightarrow> lambda_function" where
  "grantRead b f = addToRolePolicy f
     \<lparr>actions = BUCKET_READ_ACTIONS,
      resources = [Literal (bucketArn b), Literal (arnForObjects b ''*'')],
      conditions = []\<rparr>"

definition grantWrite :: "bucket \<Rightarrow> lambda_function \<Rightarrow> lambda_function" where
  "grantWrite b f = addToRolePolicy f
     \<lparr>actions = BUCKET_DELETE_ACTIONS @ BUCKET_PUT_ACTIONS,
      resources = [Literal (bucketArn b), Literal (arnForObjects b ''*'')],
      conditions = []\<rparr>"

record secret =
  secret_id :: string
  secretName :: string
  generateStringKey :: string
  excludePunctuation :: bool
  passwordLength :: nat

definition secretArn_of :: "secret \<Rightarrow> cfn_value" where
  "secretArn_of s = Attr (secret_id s) ''secretArn''"

text \<open>\<open>secret.grantRead(fn)\<close>, also a library call: read access to the one secret.\<close>

definition secret_grantRead :: "secret \<Rightarrow> lambda_function \<Rightarrow> lambda_function" where
  "secret_grantRead s f = addToRolePolicy f
     \<lparr>actions = [''secretsmanager:GetSecretValue'', ''secretsmanager:DescribeSecret''],
      resources = [secretArn_of s],
      conditions = []\<rparr>"

section \<open>Security groups\<close>

text \<open>The source of an ingress rule: an address range (\<open>ec2.Peer.ipv4\<close>) or another
  security group. Two stacks declare a security group under the same construct id, so a
  group is referred to by the stack that owns it and its id (\<open>sg_ref\<close>).\<close>

datatype peer = Peer_ipv4 cfn_value | Peer_securityGroup string

datatype port = Port_tcp nat

record ingress_rule =
  rule_peer :: peer
  rule_port :: port
  rule_description :: string

record security_group =
  sg_scope :: string
  sg_id :: string
  sg_vpc :: cfn_value
  sg_description :: string
  allowAllOutbound :: bool
  ingressRules :: "ingress_rule list"

definition SecurityGroup ::
  "string \<Rightarrow> string \<Rightarrow> cfn_value \<Rightarrow> string \<Rightarrow> bool \<Rightarrow> security_group" where
  "SecurityGroup scope sid v d out =
     \<lparr>sg_scope = scope, sg_id = sid, sg_vpc = v, sg_description = d, allowAllOutbound = out,
      ingressRules = []\<rparr>"

definition sg_ref :: "security_group \<Rightarrow> string" where
  "sg_ref sg = sg_scope sg @ ''/'' @ sg_id sg"

definition addIngressRule :: "security_group \<Rightarrow> peer \<Rightarrow> port \<Rightarrow> string \<Rightarrow> security_group" where
  "addIngressRule sg p connection d =
     sg\<lparr>ingressRules := ingressRules sg @
          [\<lparr>rule_peer = p, rule_port = connection, rule_description = d\<rparr>]\<rparr>"

section \<open>REST gateways\<close>

text \<open>
  A gateway is its list of resources (paths, the root being the empty path), the default
  integrations of its resources, and its list of methods. \<open>LambdaIntegration h p\<close> forwards
  to the function with construct id \<open>h\<close>; \<open>p\<close> is the \<open>proxy\<close> option, true when not
  given.

  Four behaviours of the library (aws-cdk-lib, outside the repository) are part of what
  the calls of the source build. A resource takes the default integration its options give
  it, or else its parent's; neither gateway of the source gives its root one. A method
  added without an integration takes the default integration of its resource, and a mock
  integration when the resource has none. A gateway with \<open>defaultCorsPreflightOptions\<close>
  gives every resource, the root included, an \<open>OPTIONS\<close> method on a mock integration.
  And \<open>addProxy\<close> creates the greedy resource \<open>{proxy+}\<close> with the options it is given and,
  with \<open>anyMethod\<close>, adds an \<open>ANY\<close> method to it without an integration; a method added to
  a proxy resource that sits under the root is added to the root in the same way, unless
  the root has that method already.
\<close>

datatype integration = LambdaIntegration string bool | MockIntegration

record api_method =
  method_path :: "string list"
  httpMethod :: string
  method_integration :: integration

record rest_api =
  api_id :: string
  restApiName :: string
  binaryMediaTypes :: "string list"
  stageName :: string
  defaultCorsPreflight :: bool
  api_resources :: "string list list"
  defaultIntegrations :: "(string list \<times> integration) list"
  api_methods :: "api_method list"

definition defaultIntegration_of :: "rest_api \<Rightarrow> string list \<Rightarrow> integration option" where
  "defaultIntegration_of api path = map_of (defaultIntegrations api) path"

definition addMethod ::
  "rest_api \<Rightarrow> string list \<Rightarrow> string \<Rightarrow> integration option \<Rightarrow> rest_api" where
  "addMethod api path m i =
     api\<lparr>api_methods := api_methods api @
          [\<lparr>method_path = path, httpMethod = m,
            method_integration =
              (case i of
                 Some g \<Rightarrow> g
               | None \<Rightarrow> (case defaultIntegration_of api path of
                            Some d \<Rightarrow> d
                          | None \<Rightarrow> MockIntegration))\<rparr>]\<rparr>"

definition addCorsPreflight :: "rest_api \<Rightarrow> string list \<Rightarrow> rest_api" where
  "addCorsPreflight api path = addMethod api path ''OPTIONS'' (Some MockIntegration)"

definition RestApi :: "string \<Rightarrow> string \<Rightarrow> string list \<Rightarrow> string \<Rightarrow> bool \<Rightarrow> rest_api" where
  "RestApi aid name bmt stage cors =
     (let api = \<lparr>api_id = aid, restApiName = name, binaryMediaTypes = bmt, stageName = stage,
                 defaultCorsPreflight = cors, api_resources = [[]],
                 defaultIntegrations = [], api_methods = []\<rparr>
      in if cors then addCorsPreflight api [] else api)"

definition newResource ::
  "rest_api \<Rightarrow> string list \<Rightarrow> string \<Rightarrow> integration option \<Rightarrow> string list \<times> rest_api" where
  "newResource api parent pathPart d =
     (let path = parent @ [pathPart];
          inherited = (case d of Some g \<Rightarrow> Some g | None \<Rightarrow> defaultIntegration_of api parent);
          api' = api\<lparr>api_resources := api_resources api @ [path],
                    defaultIntegrations :=
                      (case inherited of
                         Some g \<Rightarrow> defaultIntegrations api @ [(path, g)]
                       | None \<Rightarrow> defaultIntegrations api)\<rparr>
      in (path, if defaultCorsPreflight api then addCorsPreflight api' path else api'))"

definition addResource :: "rest_api \<Rightarrow> string list \<Rightarrow> string \<Rightarrow> string list \<times> rest_api" where
  "addResource api parent pathPart = newResource api parent pathPart None"

definition has_method :: "rest_api \<Rightarrow> string list \<Rightarrow> string \<Rightarrow> bool" where
  "has_method api path m =
     list_ex (\<lambda>x. method_path x = path \<and> httpMethod x = m) (api_methods api)"

definition proxy_addMethod ::
  "rest_api \<Rightarrow> string list \<Rightarrow> string list \<Rightarrow> string \<Rightarrow> integration option \<Rightarrow> rest_api" where
  "proxy_addMethod api parent path m i =
     (let api' = (if parent = [] \<and> \<not> has_method api [] m then addMethod api [] m i else api)
      in addMethod api' path m i)"

definition addProxy ::
  "rest_api \<Rightarrow> string list \<Rightarrow> integration option \<Rightarrow> bool \<Rightarrow> string list \<times> rest_api" where
  "addProxy api parent defaultIntegration anyMethod =
     (case newResource api parent ''{proxy+}'' defaultIntegration of
        (path, api') \<Rightarrow>
          (path, if anyMethod then proxy_addMethod api' parent path ''ANY'' None else api'))"

text \<open>The path of a resource as the gateway serves it.\<close>

fun path_string :: "string list \<Rightarrow> string" where
  "path_string [] = ''/''"
| "path_string [p] = ''/'' @ p"
| "path_string (p # ps) = ''/'' @ p @ path_string ps"

definition url_of :: "rest_api \<Rightarrow> cfn_value" where
  "url_of api = Attr (api_id api) ''url''"

section \<open>InfrastructureStack (infrastructure-stack.ts)\<close>

record vpc_construct =
  vpc_id :: string
  maxAzs :: nat
  natGateways :: nat
  subnetConfiguration :: "(string \<times> subnet_type \<times> nat) list"
  interfaceEndpoints :: "(string \<times> string \<times> bool \<times> subnet_type) list"

definition vpcId_of :: "vpc_construct \<Rightarrow> cfn_value" where
  "vpcId_of v = Attr (vpc_id v) ''vpcId''"

definition vpcCidrBlock :: "vpc_construct \<Rightarrow> cfn_value" where
  "vpcCidrBlock v = Attr (vpc_id v) ''vpcCidrBlock''"

definition addInterfaceEndpoint ::
  "vpc_construct \<Rightarrow> string \<Rightarrow> string \<Rightarrow> bool \<Rightarrow> subnet_type \<Rightarrow> vpc_construct" where
  "addInterfaceEndpoint v eid service privateDns subnets =
     v\<lparr>interfaceEndpoints := interfaceEndpoints v @ [(eid, service, privateDns, subnets)]\<rparr>"

record database_instance =
  db_id :: string
  db_vpc :: cfn_value
  db_vpcSubnets :: subnet_type
  db_securityGroups :: "string list"
  databaseName :: string
  storageEncrypted :: bool
  publiclyAccessible :: bool

record infrastructure_stack =
  infra_vpc :: vpc_construct
  dbSecret :: secret
  dbSecurityGroup :: security_group
  lambdaSecurityGroup :: security_group
  database :: database_instance
  receiptsBucket :: bucket
  infra_outputs :: "cfn_output list"

definition InfrastructureStack :: "string \<Rightarrow> infrastructure_stack" where
  "InfrastructureStack account =
    (let vpc0 = \<lparr>vpc_id = ''RtpOverlayVpc'', maxAzs = 2, natGateways = 1,
                 subnetConfiguration =
                   [(''Public'', PUBLIC, 24),
                    (''Private'', PRIVATE_WITH_EGRESS, 24),
                    (''Database'', PRIVATE_ISOLATED, 24)],
                 interfaceEndpoints = []\<rparr>;
         vpc1 = addInterfaceEndpoint vpc0 ''BedrockAgentCoreEndpoint''
                  ''com.amazonaws.us-east-1.bedrock-agentcore'' True PRIVATE_WITH_EGRESS;
         dbSecret' = \<lparr>secret_id = ''DbSecret'', secretName = ''rtp-overlay-db-credentials'',
                      generateStringKey = ''password'', excludePunctuation = True,
                      passwordLength = 32\<rparr>;
         dbSecurityGroup0 = SecurityGroup ''InfrastructureStack'' ''DbSecurityGroup''
                              (vpcId_of vpc1)
                              ''Security group for RTP Overlay RDS instance'' True;
         dbSecurityGroup1 = addIngressRule dbSecurityGroup0
                              (Peer_ipv4 (vpcCidrBlock vpc1)) (Port_tcp 5432)
                              ''Allow PostgreSQL access from VPC'';
         lambdaSecurityGroup' = SecurityGroup ''InfrastructureStack'' ''LambdaSecurityGroup''
                                  (vpcId_of vpc1)
                                  ''Security group for Lambda functions'' True;
         dbSecurityGroup2 = addIngressRule dbSecurityGroup1
                              (Peer_securityGroup (sg_ref lambdaSecurityGroup')) (Port_tcp 5432)
                              ''Allow Lambda access to RDS'';
         database' = \<lparr>db_id = ''RtpOverlayDatabase'', db_vpc = vpcId_of vpc1,
                      db_vpcSubnets = PRIVATE_ISOLATED,
                      db_securityGroups = [sg_ref dbSecurityGroup2],
                      databaseName = ''rtpoverlay'', storageEncrypted = True,
                      publiclyAccessible = False\<rparr>;
         receiptsBucket' = \<lparr>bucket_id = ''ReceiptsBucket'',
                            bucketName = ''rtp-overlay-receipts-'' @ account,
                            versioned = True, removalPolicy = RETAIN,
                            autoDeleteObjects = False\<rparr>
     in \<lparr>infra_vpc = vpc1,
         dbSecret = dbSecret',
         dbSecurityGroup = dbSecurityGroup2,
         lambdaSecurityGroup = lambdaSecurityGroup',
         database = database',
         receiptsBucket = receiptsBucket',
         infra_outputs =
           [\<lparr>output_id = ''VpcId'', output_value = vpcId_of vpc1,
             exportName = Some ''RtpOverlayVpcId''\<rparr>,
            \<lparr>output_id = ''DatabaseEndpoint'',
             output_value = Attr (db_id database') ''dbInstanceEndpointAddress'',
             exportName = Some ''RtpOverlayDbEndpoint''\<rparr>,
            \<lparr>output_id = ''DatabasePort'',
             output_value = Attr (db_id database') ''dbInstanceEndpointPort'',
             exportName = Some ''RtpOverlayDbPort''\<rparr>,
            \<lparr>output_id = ''DatabaseSecretArn'', output_value = secretArn_of dbSecret',
             exportName = Some ''RtpOverlayDbSecretArn''\<rparr>,
            \<lparr>output_id = ''ReceiptsBucketName'',
             output_value = Literal (bucketName receiptsBucket'),
             exportName = Some ''RtpOverlayReceiptsBucket''\<rparr>,
            \<lparr>output_id = ''ReceiptsBucketArn'',
             output_value = Literal (bucketArn receiptsBucket'),
             exportName = Some ''RtpOverlayReceiptsBucketArn''\<rparr>,
            \<lparr>output_id = ''PrivateSubnetIds'',
             output_value = Attr (vpc_id vpc1) ''privateSubnets'',
             exportName = Some ''RtpOverlayPrivateSubnetIds''\<rparr>,
            \<lparr>output_id = ''LambdaSecurityGroupId'',
             output_value = Attr (sg_id lambdaSecurityGroup') ''securityGroupId'',
             exportName = Some ''RtpOverlayLambdaSecurityGroupId''\<rparr>,
            \<lparr>output_id = ''NextSteps'',
             output_value = Literal
               ''Infrastructure deployed! Next: Deploy Lambda function with backend code'',
             exportName = None\<rparr>]\<rparr>)"

section \<open>InvoiceProcessingStack\<close>

record invoice_processing_stack_props =
  invoice_rtpApiUrl :: string

record invoice_processing_stack =
  invoiceProcessingLambda :: lambda_function
  invoice_inputBucket :: bucket
  outputBucket :: bucket
  apiKeySecret :: secret
  invoice_outputs :: "cfn_output list"

definition InvoiceProcessingStack ::
  "string \<Rightarrow> string \<Rightarrow> invoice_processing_stack_props \<Rightarrow> invoice_processing_stack" where
  "InvoiceProcessingStack account region props =
    (let apiKeySecret' = \<lparr>secret_id = ''RtpApiKeySecret'', secretName = ''rtp-overlay/api-key'',
                          generateStringKey = ''apiKey'', excludePunctuation = True,
                          passwordLength = 32\<rparr>;
         inputBucket' = \<lparr>bucket_id = ''InvoiceInputBucket'',
                         bucketName = ''rtp-overlay-invoices-input-'' @ account,
                         versioned = True, removalPolicy = DESTROY, autoDeleteObjects = True\<rparr>;
         outputBucket' = \<lparr>bucket_id = ''Iso20022OutputBucket'',
                          bucketName = ''rtp-overlay-iso20022-'' @ account,
                          versioned = True, removalPolicy = DESTROY, autoDeleteObjects = True\<rparr>;
         invoiceProcessingLambda0 = Function ''InvoiceProcessingLambda''
           ((FunctionProps ''python3.11'' ''lambda_iso20022.lambda_handler'')
              \<lparr>p_functionName := Some ''rtp-overlay-invoice-processor'',
               p_timeout := 120,
               p_memorySize := 1024,
               p_environment :=
                 [(''INPUT_BUCKET'', Literal (bucketName inputBucket')),
                  (''OUTPUT_BUCKET'', Literal (bucketName outputBucket')),
                  (''RTP_API_URL'', Literal (invoice_rtpApiUrl props)),
                  (''API_KEY_SECRET_NAME'', Literal (secretName apiKeySecret'))]\<rparr>);
         invoiceProcessingLambda1 = grantRead inputBucket' invoiceProcessingLambda0;
         invoiceProcessingLambda2 = grantWrite outputBucket' invoiceProcessingLambda1;
         invoiceProcessingLambda3 = addToRolePolicy invoiceProcessingLambda2
           \<lparr>actions = [''bedrock:InvokeModel''],
            resources = [Literal ''arn:aws:bedrock:*::foundation-model/*'',
                         Literal (''arn:aws:bedrock:'' @ region @ '':'' @ account @
                                  '':inference-profile/*'')],
            conditions = []\<rparr>;
         invoiceProcessingLambda4 = secret_grantRead apiKeySecret' invoiceProcessingLambda3
     in \<lparr>invoiceProcessingLambda = invoiceProcessingLambda4,
         invoice_inputBucket = inputBucket',
         outputBucket = outputBucket',
         apiKeySecret = apiKeySecret',
         invoice_outputs =
           [\<lparr>output_id = ''InputBucketName'', output_value = Literal (bucketName inputBucket'),
             exportName = Some ''RtpOverlayInvoiceInputBucket''\<rparr>,
            \<lparr>output_id = ''InputBucketArn'', output_value = Literal (bucketArn inputBucket'),
             exportName = Some ''RtpOverlayInvoiceInputBucketArn''\<rparr>,
            \<lparr>output_id = ''OutputBucketName'', output_value = Literal (bucketName outputBucket'),
             exportName = Some ''RtpOverlayIso20022OutputBucket''\<rparr>,
            \<lparr>output_id = ''OutputBucketArn'', output_value = Literal (bucketArn outputBucket'),
             exportName = Some ''RtpOverlayIso20022OutputBucketArn''\<rparr>,
            \<lparr>output_id = ''LambdaFunctionName'',
             output_value = functionName_of invoiceProcessingLambda4,
             exportName = Some ''RtpOverlayInvoiceProcessorName''\<rparr>,
            \<lparr>output_id = ''ApiKeySecretArn'', output_value = secretArn_of apiKeySecret',
             exportName = Some ''RtpOverlayApiKeySecretArn''\<rparr>,
            \<lparr>output_id = ''ApiKeySecretName'', output_value = Literal (secretName apiKeySecret'),
             exportName = None\<rparr>]\<rparr>)"

section \<open>GRProcessingStack (gr-processing-stack.ts)\<close>

record gr_processing_stack_props =
  gr_rtpApiUrl :: string
  inputBucketName :: "string option"

record gr_processing_stack =
  grProcessingLambda :: lambda_function
  gr_inputBucket :: bucket
  gr_outputs :: "cfn_output list"

text \<open>\<open>props.inputBucketName || d\<close>: the default stands in for an absent and for an empty
  name.\<close>

definition or_default :: "string option \<Rightarrow> string \<Rightarrow> string" where
  "or_default v d = (case v of None \<Rightarrow> d | Some s \<Rightarrow> if s = [] then d else s)"

definition GRProcessingStack ::
  "string \<Rightarrow> string \<Rightarrow> gr_processing_stack_props \<Rightarrow> gr_processing_stack" where
  "GRProcessingStack account region props =
    (let inputBucketName' = or_default (inputBucketName props)
                              (''rtp-overlay-receipts-input-'' @ account);
         inputBucket' = \<lparr>bucket_id = ''GRInputBucket'', bucketName = inputBucketName',
                         versioned = False, removalPolicy = DESTROY, autoDeleteObjects = True\<rparr>;
         lambdaRole0 = \<lparr>role_id = ''GRLambdaRole'', assumedBy = ''lambda.amazonaws.com'',
                        managedPolicies = [''service-role/AWSLambdaBasicExecutionRole''],
                        statements = []\<rparr>;
         lambdaRole1 = addToPolicy lambdaRole0
           \<lparr>actions = [''bedrock:InvokeModel''],
            resources = [Literal ''arn:aws:bedrock:*::foundation-model/*'',
                         Literal (''arn:aws:bedrock:'' @ region @ '':'' @ account @
                                  '':inference-profile/*'')],
            conditions = []\<rparr>;
         grProcessingLambda0 = Function ''GRProcessingLambda''
           ((FunctionProps ''python3.11'' ''lambda_goods_receipt.lambda_handler'')
              \<lparr>p_functionName := Some ''rtp-overlay-gr-processor'',
               p_role := Some lambdaRole1,
               p_timeout := 300,
               p_memorySize := 1024,
               p_environment :=
                 [(''RTP_API_URL'', Literal (gr_rtpApiUrl props)),
                  (''BEDROCK_MODEL_ID'', Literal ''us.anthropic.claude-sonnet-4-20250514-v1:0'')]\<rparr>);
         grProcessingLambda1 = grantRead inputBucket' grProcessingLambda0
     in \<lparr>grProcessingLambda = grProcessingLambda1,
         gr_inputBucket = inputBucket',
         gr_outputs =
           [\<lparr>output_id = ''LambdaFunctionName'',
             output_value = functionName_of grProcessingLambda1,
             exportName = None\<rparr>,
            \<lparr>output_id = ''InputBucketName'', output_value = Literal (bucketName inputBucket'),
             exportName = None\<rparr>]\<rparr>)"

section \<open>AgentCoreInvokerStack (infrastructure-stack.ts)\<close>

record agentcore_invoker_stack =
  agentCoreInvokerLambda :: lambda_function
  invoker_outputs :: "cfn_output list"

definition AgentCoreInvokerStack :: "string \<Rightarrow> agentcore_invoker_stack" where
  "AgentCoreInvokerStack account =
    (let agentCoreInvokerLambda0 = Function ''AgentCoreInvokerLambda''
           ((FunctionProps ''python3.12'' ''agentcore_invoker.lambda_handler'')
              \<lparr>p_functionName := Some ''rtp-overlay-agentcore-invoker'',
               p_timeout := 300,
               p_memorySize := 512,
               p_environment := [(''RUNTIME_ARN'', Literal ''PLACEHOLDER'')]\<rparr>);
         agentCoreInvokerLambda1 = addToRolePolicy agentCoreInvokerLambda0
           \<lparr>actions = [''bedrock-agentcore:InvokeAgentRuntime'',
                       ''bedrock-agentcore:GetAgentRuntime''],
            resources = [Literal (''arn:aws:bedrock-agentcore:us-east-1:'' @ account @ '':runtime/*'')],
            conditions = []\<rparr>
     in \<lparr>agentCoreInvokerLambda = agentCoreInvokerLambda1,
         invoker_outputs =
           [\<lparr>output_id = ''AgentCoreInvokerLambdaName'',
             output_value = functionName_of agentCoreInvokerLambda1,
             exportName = Some ''AgentCoreInvokerLambdaName''\<rparr>,
            \<lparr>output_id = ''AgentCoreInvokerLambdaArn'',
             output_value = functionArn_of agentCoreInvokerLambda1,
             exportName = Some ''AgentCoreInvokerLambdaArn''\<rparr>]\<rparr>)"

section \<open>VisaStubStack (visa-stub-stack.ts)\<close>

record visa_stub_stack =
  virtualCardLambda :: lambda_function
  processPaymentsLambda :: lambda_function
  getPaymentDetailsLambda :: lambda_function
  getSecurityCodeLambda :: lambda_function
  stub_api :: rest_api
  stub_outputs :: "cfn_output list"

definition stub_function :: "string \<Rightarrow> string \<Rightarrow> lambda_function" where
  "stub_function fid h = Function fid
     ((FunctionProps ''nodejs18.x'' h)
        \<lparr>p_timeout := 30,
         p_memorySize := 256,
         p_environment := [(''RESPONSE_MODE'', Literal ''SUCCESS'')]\<rparr>)"

definition VisaStubStack :: visa_stub_stack where
  "VisaStubStack =
    (let virtualCardLambda' = stub_function ''VirtualCardRequisition'' ''index.virtualCardRequisition'';
         processPaymentsLambda' = stub_function ''ProcessPayments'' ''index.processPayments'';
         getPaymentDetailsLambda' = stub_function ''GetPaymentDetails'' ''index.getPaymentDetails'';
         getSecurityCodeLambda' = stub_function ''GetSecurityCode'' ''index.getSecurityCode'';
         api0 = RestApi ''VisaStubApi'' ''visa-b2b-stub-api'' [] ''v1'' True;
         (vpaResource, api1) = addResource api0 [] ''vpa'';
         (v1Resource, api2) = addResource api1 vpaResource ''v1'';
         (accountMgmtResource, api3) = addResource api2 v1Resource ''accountManagement'';
         (virtualCardResource, api4) = addResource api3 accountMgmtResource ''VirtualCardRequisition'';
         api5 = addMethod api4 virtualCardResource ''POST''
                  (Some (LambdaIntegration (fn_id virtualCardLambda') True));
         (getSecurityCodeResource, api6) = addResource api5 accountMgmtResource ''GetSecurityCode'';
         api7 = addMethod api6 getSecurityCodeResource ''POST''
                  (Some (LambdaIntegration (fn_id getSecurityCodeLambda') True));
         (paymentResource, api8) = addResource api7 v1Resource ''payment'';
         (processPaymentsResource, api9) = addResource api8 paymentResource ''ProcessPayments'';
         api10 = addMethod api9 processPaymentsResource ''POST''
                  (Some (LambdaIntegration (fn_id processPaymentsLambda') True));
         (getPaymentDetailsResource, api11) = addResource api10 paymentResource ''GetPaymentDetails'';
         api12 = addMethod api11 getPaymentDetailsResource ''POST''
                  (Some (LambdaIntegration (fn_id getPaymentDetailsLambda') True))
     in \<lparr>virtualCardLambda = virtualCardLambda',
         processPaymentsLambda = processPaymentsLambda',
         getPaymentDetailsLambda = getPaymentDetailsLambda',
         getSecurityCodeLambda = getSecurityCodeLambda',
         stub_api = api12,
         stub_outputs =
           [\<lparr>output_id = ''VisaStubApiUrl'', output_value = url_of api12,
             exportName = Some ''VisaStubApiUrl''\<rparr>,
            \<lparr>output_id = ''VirtualCardRequisitionEndpoint'',
             output_value = Join [url_of api12,
               Literal ''vpa/v1/accountManagement/VirtualCardRequisition''],
             exportName = None\<rparr>,
            \<lparr>output_id = ''ProcessPaymentsEndpoint'',
             output_value = Join [url_of api12, Literal ''vpa/v1/payment/ProcessPayments''],
             exportName = None\<rparr>,
            \<lparr>output_id = ''GetPaymentDetailsEndpoint'',
             output_value = Join [url_of api12, Literal ''vpa/v1/payment/GetPaymentDetails''],
             exportName = None\<rparr>,
            \<lparr>output_id = ''GetSecurityCodeEndpoint'',
             output_value = Join [url_of api12,
               Literal ''vpa/v1/accountManagement/GetSecurityCode''],
             exportName = None\<rparr>]\<rparr>)"

section \<open>LambdaStack (visa-stub-stack.ts)\<close>

record lambda_stack_props =
  vpcId :: string
  dbEndpoint :: string
  dbSecretArn :: string
  s3BucketName :: string

record lambda_stack =
  lambdaSg :: security_group
  apiLambda :: lambda_function
  api :: rest_api
  migrationLambda :: lambda_function
  lambda_outputs :: "cfn_output list"

text \<open>The test the stack makes on the context: the flag is the string \<open>true\<close>, compared
  strictly, so an absent flag, a boolean and any other string all fail it.\<close>

definition agentcoreInvokerExists :: "cdk_context \<Rightarrow> bool" where
  "agentcoreInvokerExists ctx =
     (tryGetContext ctx ''agentcoreInvokerExists'' = Some (JString ''true''))"

text \<open>The environment of the proxying function. The last entry is the only place where the
  stack reads the context.\<close>

definition apiLambda_environment ::
  "string \<Rightarrow> cdk_context \<Rightarrow> lambda_stack_props \<Rightarrow> (string \<times> cfn_value) list" where
  "apiLambda_environment account ctx props =
     [(''NODE_ENV'', Literal ''production''),
      (''DB_HOST'', Literal (dbEndpoint props)),
      (''DB_PORT'', Literal ''5432''),
      (''DB_DATABASE'', Literal ''rtpoverlay''),
      (''DB_SSL'', Literal ''true''),
      (''DB_SECRET_ARN'', Literal (dbSecretArn props)),
      (''AWS_S3_BUCKET'', Literal (s3BucketName props)),
      (''S3_INPUT_BUCKET'', Literal (''rtp-overlay-invoices-input-'' @ account)),
      (''S3_GR_INPUT_BUCKET'', Literal (''rtp-overlay-receipts-input-'' @ account)),
      (''ISO20022_BUCKET_NAME'', Literal (''rtp-overlay-iso20022-'' @ account)),
      (''RECEIPTS_BUCKET'', Literal (s3BucketName props)),
      (''CORS_ORIGIN'', Literal ''*''),
      (''PAYMENT_AGENT_ARN'', Literal (''arn:aws:bedrock-agentcore:us-east-1:'' @ account @
         '':runtime/visa_b2b_payment_agent-pnP6d452ZH'')),
      (''KMS_KEY_ID'', Literal ''alias/rtp-overlay-payment-cards''),
      (''AGENTCORE_INVOKER_LAMBDA_NAME'',
         if agentcoreInvokerExists ctx
         then Fn_importValue ''AgentCoreInvokerLambdaName''
         else Literal ''rtp-overlay-agentcore-invoker'')]"

definition LambdaStack :: "string \<Rightarrow> cdk_context \<Rightarrow> lambda_stack_props \<Rightarrow> lambda_stack" where
  "LambdaStack account ctx props =
    (let vpc' = Literal (vpcId props);
         lambdaSg' = SecurityGroup ''LambdaStack'' ''LambdaSecurityGroup'' vpc'
                       ''Security group for RTP Overlay Lambda'' True;
         apiLambda0 = Function ''ApiLambda''
           ((FunctionProps ''nodejs20.x'' ''dist/lambda.handler'')
              \<lparr>p_vpc := Some vpc',
               p_vpcSubnets := Some PRIVATE_WITH_EGRESS,
               p_securityGroups := [sg_ref lambdaSg'],
               p_timeout := 60,
               p_memorySize := 512,
               p_environment := apiLambda_environment account ctx props\<rparr>);
         apiLambda1 = addToRolePolicy apiLambda0
           \<lparr>actions = [''secretsmanager:GetSecretValue''],
            resources = [Literal (dbSecretArn props)],
            conditions = []\<rparr>;
         apiLambda2 = addToRolePolicy apiLambda1
           \<lparr>actions = [''s3:GetObject'', ''s3:PutObject'', ''s3:DeleteObject''],
            resources = [Literal (''arn:aws:s3:::'' @ s3BucketName props @ ''/*'')],
            conditions = []\<rparr>;
         apiLambda3 = addToRolePolicy apiLambda2
           \<lparr>actions = [''s3:ListBucket''],
            resources = [Literal (''arn:aws:s3:::'' @ s3BucketName props)],
            conditions = []\<rparr>;
         apiLambda4 = addToRolePolicy apiLambda3
           \<lparr>actions = [''s3:PutObject'', ''s3:GetObject''],
            resources = [Literal (''arn:aws:s3:::rtp-overlay-invoices-input-'' @ account @ ''/*'')],
            conditions = []\<rparr>;
         apiLambda5 = addToRolePolicy apiLambda4
           \<lparr>actions = [''s3:PutObject'', ''s3:GetObject''],
            resources = [Literal (''arn:aws:s3:::rtp-overlay-receipts-input-'' @ account @ ''/*'')],
            conditions = []\<rparr>;
         apiLambda6 = addToRolePolicy apiLambda5
           \<lparr>actions = [''s3:GetObject''],
            resources = [Literal (''arn:aws:s3:::rtp-overlay-iso20022-'' @ account @ ''/*'')],
            conditions = []\<rparr>;
         apiLambda7 = addToRolePolicy apiLambda6
           \<lparr>actions = [''bedrock-agentcore:InvokeRuntime'', ''bedrock-agentcore:GetAgentRuntime''],
            resources = [Literal (''arn:aws:bedrock-agentcore:us-east-1:'' @ account @ '':runtime/*'')],
            conditions = []\<rparr>;
         api0 = RestApi ''RtpOverlayApi'' ''RTP Overlay API''
                  [''multipart/form-data'', ''image/*'', ''application/pdf''] ''prod'' True;
         integration' = LambdaIntegration (fn_id apiLambda7) True;
         (proxy, api1) = addProxy api0 [] (Some integration') True;
         migrationLambda0 = Function ''MigrationLambda''
           ((FunctionProps ''nodejs20.x'' ''dist/scripts/migrate-and-seed-lambda.handler'')
              \<lparr>p_vpc := Some vpc',
               p_vpcSubnets := Some PRIVATE_WITH_EGRESS,
               p_securityGroups := [sg_ref lambdaSg'],
               p_timeout := 300,
               p_memorySize := 512,
               p_environment :=
                 [(''NODE_ENV'', Literal ''production''),
                  (''DB_HOST'', Literal (dbEndpoint props)),
                  (''DB_PORT'', Literal ''5432''),
                  (''DB_DATABASE'', Literal ''rtpoverlay''),
                  (''DB_SECRET_ARN'', Literal (dbSecretArn props))]\<rparr>);
         migrationLambda1 = addToRolePolicy migrationLambda0
           \<lparr>actions = [''secretsmanager:GetSecretValue''],
            resources = [Literal (dbSecretArn props)],
            conditions = []\<rparr>;
         apiLambda8 = addToRolePolicy apiLambda7
           \<lparr>actions = [''lambda:InvokeFunction''],
            resources = [Literal (''arn:aws:lambda:us-east-1:'' @ account @
                           '':function:rtp-overlay-agentcore-invoker'')],
            conditions = []\<rparr>;
         apiLambda9 = addToRolePolicy apiLambda8
           \<lparr>actions = [''kms:Encrypt'', ''kms:Decrypt'', ''kms:DescribeKey''],
            resources = [Literal (''arn:aws:kms:us-east-1:'' @ account @ '':key/*'')],
            conditions = [(''StringEquals'',
                            [(''kms:RequestAlias'', ''alias/rtp-overlay-payment-cards'')])]\<rparr>
     in \<lparr>lambdaSg = lambdaSg',
         apiLambda = apiLambda9,
         api = api1,
         migrationLambda = migrationLambda1,
         lambda_outputs =
           [\<lparr>output_id = ''ApiUrl'', output_value = url_of api1,
             exportName = Some ''RtpOverlayApiUrl''\<rparr>,
            \<lparr>output_id = ''LambdaFunctionName'', output_value = functionName_of apiLambda9,
             exportName = Some ''RtpOverlayLambdaName''\<rparr>,
            \<lparr>output_id = ''MigrationLambdaName'', output_value = functionName_of migrationLambda1,
             exportName = None\<rparr>]\<rparr>)"

section \<open>The deployment as a whole\<close>

text \<open>Every compute unit the stacks declare, and every object store.\<close>

definition computeUnits ::
  "string \<Rightarrow> string \<Rightarrow> cdk_context \<Rightarrow> lambda_stack_props \<Rightarrow> invoice_processing_stack_props
     \<Rightarrow> gr_processing_stack_props \<Rightarrow> lambda_function list" where
  "computeUnits account region ctx lp ip gp =
     [invoiceProcessingLambda (InvoiceProcessingStack account region ip),
      grProcessingLambda (GRProcessingStack account region gp),
      agentCoreInvokerLambda (AgentCoreInvokerStack account),
      virtualCardLambda VisaStubStack,
      processPaymentsLambda VisaStubStack,
      getPaymentDetailsLambda VisaStubStack,
      getSecurityCodeLambda VisaStubStack,
      apiLambda (LambdaStack account ctx lp),
      migrationLambda (LambdaStack account ctx lp)]"


section \<open>What a policy grants\<close>

text \<open>
  An action on objects or buckets is read-only when it is a \<open>Get\<close> or a \<open>List\<close> action (or
  a pattern of such actions); every other S3 action, and the wildcards over all S3
  actions, count as writing: put, delete, abort.
\<close>

definition s3_read_action :: "string \<Rightarrow> bool" where
  "s3_read_action a = (prefix ''s3:Get'' a \<or> prefix ''s3:List'' a)"

definition s3_write_action :: "string \<Rightarrow> bool" where
  "s3_write_action a = ((prefix ''s3:'' a \<or> a = ''*'') \<and> \<not> s3_read_action a)"

text \<open>A statement is about a bucket when it names the bucket or the bucket's objects; these
  are the two forms in which the source and the library's grants name a bucket.\<close>

definition statement_on_bucket :: "bucket \<Rightarrow> policy_statement \<Rightarrow> bool" where
  "statement_on_bucket b st =
     (Literal (bucketArn b) \<in> set (resources st) \<or>
      Literal (arnForObjects b ''*'') \<in> set (resources st))"

definition bucket_statements :: "lambda_function \<Rightarrow> bucket \<Rightarrow> policy_statement list" where
  "bucket_statements f b = filter (statement_on_bucket b) (statements (role f))"

definition read_only_statement :: "policy_statement \<Rightarrow> bool" where
  "read_only_statement st = list_all s3_read_action (actions st)"

definition grants_write_on :: "lambda_function \<Rightarrow> bucket \<Rightarrow> bool" where
  "grants_write_on f b =
     list_ex (\<lambda>st. list_ex s3_write_action (actions st) \<and> statement_on_bucket b st)
       (statements (role f))"







text \<open>Key-use grants: the statements with a KMS action, and the value a statement's
  condition block gives a key under an operator.\<close>

definition kms_action :: "string \<Rightarrow> bool" where
  "kms_action a = prefix ''kms:'' a"

definition key_use_grants :: "lambda_function \<Rightarrow> policy_statement list" where
  "key_use_grants f = filter (\<lambda>st. list_ex kms_action (actions st)) (statements (role f))"

definition condition_value :: "policy_statement \<Rightarrow> string \<Rightarrow> string \<Rightarrow> string option" where
  "condition_value st operator key =
     (case map_of (conditions st) operator of
        None \<Rightarrow> None
      | Some kv \<Rightarrow> map_of kv key)"

definition alias_restricted :: "policy_statement \<Rightarrow> bool" where
  "alias_restricted st = (condition_value st ''StringEquals'' ''kms:RequestAlias'' \<noteq> None)"

definition invoke_grants :: "lambda_function \<Rightarrow> policy_statement list" where
  "invoke_grants f =
     filter (\<lambda>st. ''lambda:InvokeFunction'' \<in> set (actions st)) (statements (role f))"

text \<open>Network attachment and ingress sources.\<close>

definition attached :: "lambda_function \<Rightarrow> bool" where
  "attached f = (vpc f \<noteq> None)"

fun from_security_group :: "ingress_rule \<Rightarrow> bool" where
  "from_security_group r =
     (case rule_peer r of Peer_securityGroup g \<Rightarrow> True | Peer_ipv4 c \<Rightarrow> False)"

text \<open>Exports, and the two-phase value of the bridge's function name.\<close>

definition exports_of :: "cfn_output list \<Rightarrow> string \<rightharpoonup> cfn_value" where
  "exports_of outs =
     map_of (List.map_filter
       (\<lambda>out. case exportName out of None \<Rightarrow> None | Some n \<Rightarrow> Some (n, output_value out)) outs)"

text \<open>What an importing stack gets when it is applied against a table of exports: the
  export for an import (none when the export does not exist), the value itself
  otherwise.\<close>

fun resolve :: "(string \<rightharpoonup> cfn_value) \<Rightarrow> cfn_value \<Rightarrow> cfn_value option" where
  "resolve ex (ImportValue n) = ex n"
| "resolve ex v = Some v"

definition bridge_invoke_target ::
  "string \<Rightarrow> cdk_context \<Rightarrow> lambda_stack_props \<Rightarrow> cfn_value option" where
  "bridge_invoke_target account ctx lp =
     env_value (apiLambda (LambdaStack account ctx lp)) ''AGENTCORE_INVOKER_LAMBDA_NAME''"

text \<open>The number of changes of value along a sequence of observations.\<close>

fun transitions :: "'a list \<Rightarrow> nat" where
  "transitions (x # y # zs) = (if x = y then 0 else 1) + transitions (y # zs)"
| "transitions zs = 0"

definition set_environment ::
  "lambda_function \<Rightarrow> string \<Rightarrow> cfn_value \<Rightarrow> lambda_function" where
  "set_environment f key v =
     f\<lparr>environment := map (\<lambda>(k, x). if k = key then (k, v) else (k, x)) (environment f)\<rparr>"

text \<open>The methods of a gateway, by verb, and its resources below the root.\<close>

definition methods_with :: "rest_api \<Rightarrow> string \<Rightarrow> api_method list" where
  "methods_with a m = filter (\<lambda>x. httpMethod x = m) (api_methods a)"

definition served :: "api_method \<Rightarrow> string \<times> integration" where
  "served x = (path_string (method_path x), method_integration x)"

definition child_resources :: "rest_api \<Rightarrow> string list list" where
  "child_resources a = filter (\<lambda>p. p \<noteq> []) (api_resources a)"

section \<open>An example deployment\<close>

text \<open>Concrete inputs, for evaluating the stacks: an account, a region, the props the
  stacks take, and the contexts of the two phases of the bridge's deployment. A boolean
  flag is not the string the stack tests for, so it still belongs to the first phase.\<close>

definition example_account :: string where
  "example_account = ''123456789012''"


definition example_lambda_props :: lambda_stack_props where
  "example_lambda_props =
     \<lparr>vpcId = ''vpc-0a1b2c3d'',
      dbEndpoint = ''rtp-overlay.example.us-east-1.rds.amazonaws.com'',
      dbSecretArn =
        ''arn:aws:secretsmanager:us-east-1:123456789012:secret:rtp-overlay-db-credentials'',
      s3BucketName = ''rtp-overlay-receipts-123456789012''\<rparr>"





definition no_flag :: cdk_context where
  "no_flag = Map.empty"

definition boolean_flag :: cdk_context where
  "boolean_flag = [''agentcoreInvokerExists'' \<mapsto> JBool True]"

definition string_flag :: cdk_context where
  "string_flag = [''agentcoreInvokerExists'' \<mapsto> JString ''true'']"

section \<open>The constructs of each stack\<close>

lemmas construct_defs = Function_def FunctionProps_def ServiceRole_def addToRolePolicy_def
  addToPolicy_def grantRead_def grantWrite_def secret_grantRead_def

lemma addMethod_explicit:
  "addMethod \<lparr>api_id = i, restApiName = n, binaryMediaTypes = b, stageName = s,
      defaultCorsPreflight = c, api_resources = rs, defaultIntegrations = ds,
      api_methods = ms\<rparr> path m (Some g) =
   \<lparr>api_id = i, restApiName = n, binaryMediaTypes = b, stageName = s,
      defaultCorsPreflight = c, api_resources = rs, defaultIntegrations = ds,
      api_methods = ms @ [\<lparr>method_path = path, httpMethod = m, method_integration = g\<rparr>]\<rparr>"
  by (simp add: addMethod_def)

lemma addMethod_default_explicit:
  "addMethod \<lparr>api_id = i, restApiName = n, binaryMediaTypes = b, stageName = s,
      defaultCorsPreflight = c, api_resources = rs, defaultIntegrations = ds,
      api_methods = ms\<rparr> path m None =
   \<lparr>api_id = i, restApiName = n, binaryMediaTypes = b, stageName = s,
      defaultCorsPreflight = c, api_resources = rs, defaultIntegrations = ds,
      api_methods = ms @ [\<lparr>method_path = path, httpMethod = m,
        method_integration = (case map_of ds path of Some d \<Rightarrow> d | None \<Rightarrow> MockIntegration)\<rparr>]\<rparr>"
  by (simp add: addMethod_def defaultIntegration_of_def)

lemma RestApi_explicit:
  "RestApi i n b s c =
   \<lparr>api_id = i, restApiName = n, binaryMediaTypes = b, stageName = s,
      defaultCorsPreflight = c, api_resources = [[]], defaultIntegrations = [],
      api_methods = (if c then [\<lparr>method_path = [], httpMethod = ''OPTIONS'',
                                 method_integration = MockIntegration\<rparr>] else [])\<rparr>"
  by (simp add: RestApi_def addCorsPreflight_def addMethod_def)

lemma newResource_explicit:
  "newResource \<lparr>api_id = i, restApiName = n, binaryMediaTypes = b, stageName = s,
      defaultCorsPreflight = c, api_resources = rs, defaultIntegrations = ds,
      api_methods = ms\<rparr> parent p d =
   (parent @ [p],
    \<lparr>api_id = i, restApiName = n, binaryMediaTypes = b, stageName = s,
      defaultCorsPreflight = c, api_resources = rs @ [parent @ [p]],
      defaultIntegrations =
        (case (case d of Some g \<Rightarrow> Some g | None \<Rightarrow> map_of ds parent) of
           Some g \<Rightarrow> ds @ [(parent @ [p], g)]
         | None \<Rightarrow> ds),
      api_methods = ms @ (if c then [\<lparr>method_path = parent @ [p], httpMethod = ''OPTIONS'',
                                 method_integration = MockIntegration\<rparr>] else [])\<rparr>)"
  by (simp add: newResource_def addCorsPreflight_def addMethod_def Let_def
      defaultIntegration_of_def split: option.split)

lemma addResource_explicit:
  "addResource \<lparr>api_id = i, restApiName = n, binaryMediaTypes = b, stageName = s,
      defaultCorsPreflight = c, api_resources = rs, defaultIntegrations = [],
      api_methods = ms\<rparr> parent p =
   (parent @ [p],
    \<lparr>api_id = i, restApiName = n, binaryMediaTypes = b, stageName = s,
      defaultCorsPreflight = c, api_resources = rs @ [parent @ [p]], defaultIntegrations = [],
      api_methods = ms @ (if c then [\<lparr>method_path = parent @ [p], httpMethod = ''OPTIONS'',
                                 method_integration = MockIntegration\<rparr>] else [])\<rparr>)"
  by (simp add: addResource_def newResource_explicit)

lemmas api_explicit = RestApi_explicit addResource_explicit addMethod_explicit

lemma stub_function_shape:
  "fn_id (stub_function fid h) = fid"
  "vpc (stub_function fid h) = None"
  "securityGroups (stub_function fid h) = []"
  "statements (role (stub_function fid h)) = []"
  "environment (stub_function fid h) = [(''RESPONSE_MODE'', Literal ''SUCCESS'')]"
  by (simp_all add: stub_function_def construct_defs)

lemma stub_lambdas:
  "virtualCardLambda VisaStubStack =
     stub_function ''VirtualCardRequisition'' ''index.virtualCardRequisition''"
  "processPaymentsLambda VisaStubStack =
     stub_function ''ProcessPayments'' ''index.processPayments''"
  "getPaymentDetailsLambda VisaStubStack =
     stub_function ''GetPaymentDetails'' ''index.getPaymentDetails''"
  "getSecurityCodeLambda VisaStubStack =
     stub_function ''GetSecurityCode'' ''index.getSecurityCode''"
  by (simp_all add: VisaStubStack_def Let_def api_explicit)

lemma stub_api_methods:
  "api_methods (stub_api VisaStubStack) =
     [\<lparr>method_path = [], httpMethod = ''OPTIONS'', method_integration = MockIntegration\<rparr>,
      \<lparr>method_path = [''vpa''], httpMethod = ''OPTIONS'', method_integration = MockIntegration\<rparr>,
      \<lparr>method_path = [''vpa'', ''v1''], httpMethod = ''OPTIONS'',
        method_integration = MockIntegration\<rparr>,
      \<lparr>method_path = [''vpa'', ''v1'', ''accountManagement''], httpMethod = ''OPTIONS'',
        method_integration = MockIntegration\<rparr>,
      \<lparr>method_path = [''vpa'', ''v1'', ''accountManagement'', ''VirtualCardRequisition''],
        httpMethod = ''OPTIONS'', method_integration = MockIntegration\<rparr>,
      \<lparr>method_path = [''vpa'', ''v1'', ''accountManagement'', ''VirtualCardRequisition''],
        httpMethod = ''POST'',
        method_integration = LambdaIntegration ''VirtualCardRequisition'' True\<rparr>,
      \<lparr>method_path = [''vpa'', ''v1'', ''accountManagement'', ''GetSecurityCode''],
        httpMethod = ''OPTIONS'', method_integration = MockIntegration\<rparr>,
      \<lparr>method_path = [''vpa'', ''v1'', ''accountManagement'', ''GetSecurityCode''],
        httpMethod = ''POST'', method_integration = LambdaIntegration ''GetSecurityCode'' True\<rparr>,
      \<lparr>method_path = [''vpa'', ''v1'', ''payment''], httpMethod = ''OPTIONS'',
        method_integration = MockIntegration\<rparr>,
      \<lparr>method_path = [''vpa'', ''v1'', ''payment'', ''ProcessPayments''],
        httpMethod = ''OPTIONS'', method_integration = MockIntegration\<rparr>,
      \<lparr>method_path = [''vpa'', ''v1'', ''payment'', ''ProcessPayments''],
        httpMethod = ''POST'', method_integration = LambdaIntegration ''ProcessPayments'' True\<rparr>,
      \<lparr>method_path = [''vpa'', ''v1'', ''payment'', ''GetPaymentDetails''],
        httpMethod = ''OPTIONS'', method_integration = MockIntegration\<rparr>,
      \<lparr>method_path = [''vpa'', ''v1'', ''payment'', ''GetPaymentDetails''],
        httpMethod = ''POST'', method_integration = LambdaIntegration ''GetPaymentDetails'' True\<rparr>]"
  by (simp add: VisaStubStack_def Let_def api_explicit stub_function_shape)

lemma addProxy_explicit:
  "addProxy \<lparr>api_id = i, restApiName = n, binaryMediaTypes = b, stageName = s,
      defaultCorsPreflight = c, api_resources = rs, defaultIntegrations = [],
      api_methods = ms\<rparr> [] (Some g) True =
   ([''{proxy+}''],
    \<lparr>api_id = i, restApiName = n, binaryMediaTypes = b, stageName = s,
      defaultCorsPreflight = c, api_resources = rs @ [[''{proxy+}'']],
      defaultIntegrations = [([''{proxy+}''], g)],
      api_methods =
        (let ms' = ms @ (if c then [\<lparr>method_path = [''{proxy+}''], httpMethod = ''OPTIONS'',
                                      method_integration = MockIntegration\<rparr>] else [])
         in ms' @
            (if list_ex (\<lambda>x. method_path x = [] \<and> httpMethod x = ''ANY'') ms' then []
             else [\<lparr>method_path = [], httpMethod = ''ANY'',
                    method_integration = MockIntegration\<rparr>]) @
            [\<lparr>method_path = [''{proxy+}''], httpMethod = ''ANY'', method_integration = g\<rparr>])\<rparr>)"
  by (simp add: addProxy_def newResource_explicit proxy_addMethod_def has_method_def
      addMethod_default_explicit Let_def)

lemma lambda_stack_api:
  "api (LambdaStack account ctx lp) =
     \<lparr>api_id = ''RtpOverlayApi'', restApiName = ''RTP Overlay API'',
      binaryMediaTypes = [''multipart/form-data'', ''image/*'', ''application/pdf''],
      stageName = ''prod'', defaultCorsPreflight = True,
      api_resources = [[], [''{proxy+}'']],
      defaultIntegrations = [([''{proxy+}''], LambdaIntegration ''ApiLambda'' True)],
      api_methods =
        [\<lparr>method_path = [], httpMethod = ''OPTIONS'', method_integration = MockIntegration\<rparr>,
         \<lparr>method_path = [''{proxy+}''], httpMethod = ''OPTIONS'',
           method_integration = MockIntegration\<rparr>,
         \<lparr>method_path = [], httpMethod = ''ANY'', method_integration = MockIntegration\<rparr>,
         \<lparr>method_path = [''{proxy+}''], httpMethod = ''ANY'',
           method_integration = LambdaIntegration ''ApiLambda'' True\<rparr>]\<rparr>"
  by (simp add: LambdaStack_def Let_def RestApi_explicit addProxy_explicit construct_defs)

lemma apiLambda_statements:
  "statements (role (apiLambda (LambdaStack account ctx lp))) =
     [\<lparr>actions = [''secretsmanager:GetSecretValue''],
       resources = [Literal (dbSecretArn lp)], conditions = []\<rparr>,
      \<lparr>actions = [''s3:GetObject'', ''s3:PutObject'', ''s3:DeleteObject''],
       resources = [Literal (''arn:aws:s3:::'' @ s3BucketName lp @ ''/*'')], conditions = []\<rparr>,
      \<lparr>actions = [''s3:ListBucket''],
       resources = [Literal (''arn:aws:s3:::'' @ s3BucketName lp)], conditions = []\<rparr>,
      \<lparr>actions = [''s3:PutObject'', ''s3:GetObject''],
       resources = [Literal (''arn:aws:s3:::rtp-overlay-invoices-input-'' @ account @ ''/*'')],
       conditions = []\<rparr>,
      \<lparr>actions = [''s3:PutObject'', ''s3:GetObject''],
       resources = [Literal (''arn:aws:s3:::rtp-overlay-receipts-input-'' @ account @ ''/*'')],
       conditions = []\<rparr>,
      \<lparr>actions = [''s3:GetObject''],
       resources = [Literal (''arn:aws:s3:::rtp-overlay-iso20022-'' @ account @ ''/*'')],
       conditions = []\<rparr>,
      \<lparr>actions = [''bedrock-agentcore:InvokeRuntime'', ''bedrock-agentcore:GetAgentRuntime''],
       resources = [Literal (''arn:aws:bedrock-agentcore:us-east-1:'' @ account @ '':runtime/*'')],
       conditions = []\<rparr>,
      \<lparr>actions = [''lambda:InvokeFunction''],
       resources = [Literal (''arn:aws:lambda:us-east-1:'' @ account @
                      '':function:rtp-overlay-agentcore-invoker'')],
       conditions = []\<rparr>,
      \<lparr>actions = [''kms:Encrypt'', ''kms:Decrypt'', ''kms:DescribeKey''],
       resources = [Literal (''arn:aws:kms:us-east-1:'' @ account @ '':key/*'')],
       conditions = [(''StringEquals'',
                       [(''kms:RequestAlias'', ''alias/rtp-overlay-payment-cards'')])]\<rparr>]"
  by (simp add: LambdaStack_def Let_def construct_defs RestApi_explicit addProxy_explicit)

lemma apiLambda_shape:
  "fn_id (apiLambda (LambdaStack account ctx lp)) = ''ApiLambda''"
  "vpc (apiLambda (LambdaStack account ctx lp)) = Some (Literal (vpcId lp))"
  "securityGroups (apiLambda (LambdaStack account ctx lp)) = [''LambdaStack/LambdaSecurityGroup'']"
  "environment (apiLambda (LambdaStack account ctx lp)) = apiLambda_environment account ctx lp"
  by (simp_all add: LambdaStack_def Let_def construct_defs RestApi_explicit addProxy_explicit
        SecurityGroup_def sg_ref_def)

lemma migrationLambda_shape:
  "fn_id (migrationLambda (LambdaStack account ctx lp)) = ''MigrationLambda''"
  "vpc (migrationLambda (LambdaStack account ctx lp)) = Some (Literal (vpcId lp))"
  "securityGroups (migrationLambda (LambdaStack account ctx lp)) =
     [''LambdaStack/LambdaSecurityGroup'']"
  "statements (role (migrationLambda (LambdaStack account ctx lp))) =
     [\<lparr>actions = [''secretsmanager:GetSecretValue''],
       resources = [Literal (dbSecretArn lp)], conditions = []\<rparr>]"
  by (simp_all add: LambdaStack_def Let_def construct_defs RestApi_explicit addProxy_explicit
        SecurityGroup_def sg_ref_def)

lemma set_environment_addToRolePolicy:
  "set_environment (addToRolePolicy f st) k v = addToRolePolicy (set_environment f k v) st"
  by (simp add: set_environment_def addToRolePolicy_def)

lemma set_environment_Function:
  "set_environment (Function fid props) k v =
     Function fid (props\<lparr>p_environment :=
       map (\<lambda>(k', x). if k' = k then (k', v) else (k', x)) (p_environment props)\<rparr>)"
  by (simp add: set_environment_def Function_def split: option.split)

lemma addToRolePolicy_names:
  "fn_id (addToRolePolicy f st) = fn_id f"
  "functionName_of (addToRolePolicy f st) = functionName_of f"
  by (simp_all add: addToRolePolicy_def functionName_of_def split: option.split)

lemma Function_names:
  "fn_id (Function fid props) = fid"
  "functionName_of (Function fid props) =
     (case p_functionName props of Some n \<Rightarrow> Literal n | None \<Rightarrow> Attr fid ''functionName'')"
  by (simp_all add: Function_def functionName_of_def split: option.split)

lemma apiLambda_environment_context:
  "map (\<lambda>(k, x). if k = ''AGENTCORE_INVOKER_LAMBDA_NAME''
        then (k, if agentcoreInvokerExists ctx
                 then Fn_importValue ''AgentCoreInvokerLambdaName''
                 else Literal ''rtp-overlay-agentcore-invoker'')
        else (k, x))
     (apiLambda_environment account ctx' lp) = apiLambda_environment account ctx lp"
  by (simp add: apiLambda_environment_def)

lemma lambda_stack_context:
  "LambdaStack account ctx lp =
     (LambdaStack account ctx' lp)
       \<lparr>apiLambda := set_environment (apiLambda (LambdaStack account ctx' lp))
          ''AGENTCORE_INVOKER_LAMBDA_NAME''
          (if agentcoreInvokerExists ctx
           then Fn_importValue ''AgentCoreInvokerLambdaName''
           else Literal ''rtp-overlay-agentcore-invoker'')\<rparr>"
  unfolding LambdaStack_def Let_def
  by (simp add: set_environment_addToRolePolicy set_environment_Function addToRolePolicy_names
      Function_names FunctionProps_def apiLambda_environment_context RestApi_explicit
      addProxy_explicit split del: if_split)

lemma invoice_shape:
  "fn_id (invoiceProcessingLambda (InvoiceProcessingStack account region ip)) =
     ''InvoiceProcessingLambda''"
  "vpc (invoiceProcessingLambda (InvoiceProcessingStack account region ip)) = None"
  "securityGroups (invoiceProcessingLambda (InvoiceProcessingStack account region ip)) = []"
  by (simp_all add: InvoiceProcessingStack_def Let_def construct_defs)

lemma invoice_statements:
  "statements (role (invoiceProcessingLambda (InvoiceProcessingStack account region ip))) =
     [\<lparr>actions = BUCKET_READ_ACTIONS,
       resources = [Literal (''arn:aws:s3:::rtp-overlay-invoices-input-'' @ account),
                    Literal (''arn:aws:s3:::rtp-overlay-invoices-input-'' @ account @ ''/*'')],
       conditions = []\<rparr>,
      \<lparr>actions = BUCKET_DELETE_ACTIONS @ BUCKET_PUT_ACTIONS,
       resources = [Literal (''arn:aws:s3:::rtp-overlay-iso20022-'' @ account),
                    Literal (''arn:aws:s3:::rtp-overlay-iso20022-'' @ account @ ''/*'')],
       conditions = []\<rparr>,
      \<lparr>actions = [''bedrock:InvokeModel''],
       resources = [Literal ''arn:aws:bedrock:*::foundation-model/*'',
                    Literal (''arn:aws:bedrock:'' @ region @ '':'' @ account @
                             '':inference-profile/*'')],
       conditions = []\<rparr>,
      \<lparr>actions = [''secretsmanager:GetSecretValue'', ''secretsmanager:DescribeSecret''],
       resources = [Attr ''RtpApiKeySecret'' ''secretArn''],
       conditions = []\<rparr>]"
  by (simp add: InvoiceProcessingStack_def Let_def construct_defs bucketArn_def
        arnForObjects_def secretArn_of_def)

lemma invoice_buckets:
  "invoice_inputBucket (InvoiceProcessingStack account region ip) =
     \<lparr>bucket_id = ''InvoiceInputBucket'', bucketName = ''rtp-overlay-invoices-input-'' @ account,
      versioned = True, removalPolicy = DESTROY, autoDeleteObjects = True\<rparr>"
  "outputBucket (InvoiceProcessingStack account region ip) =
     \<lparr>bucket_id = ''Iso20022OutputBucket'', bucketName = ''rtp-overlay-iso20022-'' @ account,
      versioned = True, removalPolicy = DESTROY, autoDeleteObjects = True\<rparr>"
  by (simp_all add: InvoiceProcessingStack_def Let_def)

lemma gr_shape:
  "fn_id (grProcessingLambda (GRProcessingStack account region gp)) = ''GRProcessingLambda''"
  "vpc (grProcessingLambda (GRProcessingStack account region gp)) = None"
  "securityGroups (grProcessingLambda (GRProcessingStack account region gp)) = []"
  by (simp_all add: GRProcessingStack_def Let_def construct_defs)

lemma gr_bucket:
  "gr_inputBucket (GRProcessingStack account region gp) =
     \<lparr>bucket_id = ''GRInputBucket'',
      bucketName = or_default (inputBucketName gp) (''rtp-overlay-receipts-input-'' @ account),
      versioned = False, removalPolicy = DESTROY, autoDeleteObjects = True\<rparr>"
  by (simp add: GRProcessingStack_def Let_def)

lemma gr_statements:
  "statements (role (grProcessingLambda (GRProcessingStack account region gp))) =
     [\<lparr>actions = [''bedrock:InvokeModel''],
       resources = [Literal ''arn:aws:bedrock:*::foundation-model/*'',
                    Literal (''arn:aws:bedrock:'' @ region @ '':'' @ account @
                             '':inference-profile/*'')],
       conditions = []\<rparr>,
      \<lparr>actions = BUCKET_READ_ACTIONS,
       resources =
         [Literal (''arn:aws:s3:::'' @
            or_default (inputBucketName gp) (''rtp-overlay-receipts-input-'' @ account)),
          Literal (''arn:aws:s3:::'' @
            or_default (inputBucketName gp) (''rtp-overlay-receipts-input-'' @ account) @ ''/*'')],
       conditions = []\<rparr>]"
  by (simp add: GRProcessingStack_def Let_def construct_defs bucketArn_def arnForObjects_def)


lemma db_ingress:
  "ingressRules (dbSecurityGroup (InfrastructureStack account)) =
     [\<lparr>rule_peer = Peer_ipv4 (Attr ''RtpOverlayVpc'' ''vpcCidrBlock''),
       rule_port = Port_tcp 5432,
       rule_description = ''Allow PostgreSQL access from VPC''\<rparr>,
      \<lparr>rule_peer = Peer_securityGroup ''InfrastructureStack/LambdaSecurityGroup'',
       rule_port = Port_tcp 5432,
       rule_description = ''Allow Lambda access to RDS''\<rparr>]"
  by (simp add: InfrastructureStack_def Let_def SecurityGroup_def addIngressRule_def
      addInterfaceEndpoint_def vpcCidrBlock_def vpcId_of_def sg_ref_def)

lemma infra_network:
  "vpcCidrBlock (infra_vpc (InfrastructureStack account)) = Attr ''RtpOverlayVpc'' ''vpcCidrBlock''"
  "sg_ref (lambdaSecurityGroup (InfrastructureStack account)) =
     ''InfrastructureStack/LambdaSecurityGroup''"
  "sg_ref (dbSecurityGroup (InfrastructureStack account)) = ''InfrastructureStack/DbSecurityGroup''"
  "db_securityGroups (database (InfrastructureStack account)) =
     [''InfrastructureStack/DbSecurityGroup'']"
  "db_vpcSubnets (database (InfrastructureStack account)) = PRIVATE_ISOLATED"
  "publiclyAccessible (database (InfrastructureStack account)) = False"
  by (simp_all add: InfrastructureStack_def Let_def SecurityGroup_def addIngressRule_def
      addInterfaceEndpoint_def vpcCidrBlock_def vpcId_of_def sg_ref_def)

lemma bridge_shape:
  "fn_id (agentCoreInvokerLambda (AgentCoreInvokerStack account)) = ''AgentCoreInvokerLambda''"
  "functionName (agentCoreInvokerLambda (AgentCoreInvokerStack account)) =
     Some ''rtp-overlay-agentcore-invoker''"
  "vpc (agentCoreInvokerLambda (AgentCoreInvokerStack account)) = None"
  "securityGroups (agentCoreInvokerLambda (AgentCoreInvokerStack account)) = []"
  "environment (agentCoreInvokerLambda (AgentCoreInvokerStack account)) =
     [(''RUNTIME_ARN'', Literal ''PLACEHOLDER'')]"
  "statements (role (agentCoreInvokerLambda (AgentCoreInvokerStack account))) =
     [\<lparr>actions = [''bedrock-agentcore:InvokeAgentRuntime'', ''bedrock-agentcore:GetAgentRuntime''],
       resources = [Literal (''arn:aws:bedrock-agentcore:us-east-1:'' @ account @ '':runtime/*'')],
       conditions = []\<rparr>]"
  by (simp_all add: AgentCoreInvokerStack_def Let_def construct_defs)

lemma bridge_exports:
  "exports_of (invoker_outputs (AgentCoreInvokerStack account)) ''AgentCoreInvokerLambdaName'' =
     Some (Literal ''rtp-overlay-agentcore-invoker'')"
  by (simp add: AgentCoreInvokerStack_def Let_def construct_defs exports_of_def
      List.map_filter_simps functionName_of_def)

section \<open>The bridge's runtime identifier\<close>

text \<open>
  Claim C4. On the bridge's deployment the target runtime identifier, the \<open>RUNTIME_ARN\<close>
  entry of the bridge function's environment, is the literal string \<open>PLACEHOLDER\<close>, for
  every account: the stack has no input that could make it anything else, and the real
  identifier is put in from outside after the deployment.
\<close>

theorem bridge_runtime_arn_placeholder:
  "env_value (agentCoreInvokerLambda (AgentCoreInvokerStack account)) ''RUNTIME_ARN''
     = Some (Literal ''PLACEHOLDER'')"
  by (simp add: env_value_def bridge_shape)

section \<open>Two-phase resolution of the bridge's function name\<close>

lemma bridge_invoke_target_value:
  "bridge_invoke_target account ctx lp =
     Some (if agentcoreInvokerExists ctx then ImportValue ''AgentCoreInvokerLambdaName''
           else Literal ''rtp-overlay-agentcore-invoker'')"
  by (simp add: bridge_invoke_target_def env_value_def apiLambda_shape
      apiLambda_environment_def Fn_importValue_def)

lemma transitions_replicate: "transitions (replicate n v) = 0"
proof (induction n)
  case 0
  show ?case by simp
next
  case (Suc n)
  then show ?case by (cases n) simp_all
qed

lemma transitions_step:
  assumes "a \<noteq> b"
  shows "transitions (replicate (Suc m) a @ replicate (Suc n) b) = 1"
proof (induction m)
  case 0
  have "transitions (a # b # replicate n b) = 1 + transitions (replicate (Suc n) b)"
    using assms by simp
  then show ?case by (simp only: transitions_replicate) simp
next
  case (Suc m)
  have "transitions (replicate (Suc (Suc m)) a @ replicate (Suc n) b) =
        transitions (replicate (Suc m) a @ replicate (Suc n) b)"
    by simp
  with Suc show ?case by simp
qed

lemma map_constant:
  "list_all (\<lambda>c. f c = v) cs \<Longrightarrow> map f cs = replicate (length cs) v"
  by (induction cs) simp_all

lemma bridge_name_resolved:
  "Option.bind (bridge_invoke_target account ctx lp)
     (resolve (exports_of (invoker_outputs (AgentCoreInvokerStack account)))) =
   Some (Literal ''rtp-overlay-agentcore-invoker'')"
  by (simp add: bridge_invoke_target_value bridge_exports)

text \<open>
  Claim C1. The stack is applied some number of times while the flag is not the string
  \<open>true\<close> (phase 1) and then some number of times while it is (phase 2), at least once in
  each phase. In every application of phase 1 the value the proxying function consumes as
  the bridge's name, its \<open>AGENTCORE_INVOKER_LAMBDA_NAME\<close>, is the literal placeholder
  \<open>rtp-overlay-agentcore-invoker\<close>; in every application of phase 2 it is the import of
  the export \<open>AgentCoreInvokerLambdaName\<close>, under which the bridge's stack exports the
  name of its function; and along the whole sequence the consumed value changes exactly
  once, from the placeholder to the import.
\<close>

theorem bridge_name_two_phase:
  assumes p1: "list_all (\<lambda>c. \<not> agentcoreInvokerExists c) phase1"
      and p2: "list_all agentcoreInvokerExists phase2"
      and n1: "phase1 \<noteq> []"
      and n2: "phase2 \<noteq> []"
  shows "list_all (\<lambda>c. bridge_invoke_target account c lp =
                       Some (Literal ''rtp-overlay-agentcore-invoker'')) phase1
       \<and> list_all (\<lambda>c. bridge_invoke_target account c lp =
                       Some (ImportValue ''AgentCoreInvokerLambdaName'')) phase2
       \<and> exports_of (invoker_outputs (AgentCoreInvokerStack account))
           ''AgentCoreInvokerLambdaName'' =
         Some (functionName_of (agentCoreInvokerLambda (AgentCoreInvokerStack account)))
       \<and> transitions (map (\<lambda>c. bridge_invoke_target account c lp) (phase1 @ phase2)) = 1"
proof -
  let ?t = "\<lambda>c. bridge_invoke_target account c lp"
  let ?placeholder = "Some (Literal ''rtp-overlay-agentcore-invoker'')"
  let ?resolved = "Some (ImportValue ''AgentCoreInvokerLambdaName'')"
  have a1: "list_all (\<lambda>c. ?t c = ?placeholder) phase1"
    using p1 by (induction phase1) (simp_all add: bridge_invoke_target_value)
  have a2: "list_all (\<lambda>c. ?t c = ?resolved) phase2"
    using p2 by (induction phase2) (simp_all add: bridge_invoke_target_value)
  have ex: "exports_of (invoker_outputs (AgentCoreInvokerStack account))
              ''AgentCoreInvokerLambdaName'' =
            Some (functionName_of (agentCoreInvokerLambda (AgentCoreInvokerStack account)))"
    by (simp add: bridge_exports functionName_of_def bridge_shape)
  obtain m where m: "length phase1 = Suc m"
    using n1 by (cases phase1) simp_all
  obtain n where n: "length phase2 = Suc n"
    using n2 by (cases phase2) simp_all
  have "map ?t (phase1 @ phase2) = replicate (Suc m) ?placeholder @ replicate (Suc n) ?resolved"
    using map_constant [OF a1] map_constant [OF a2] m n by simp
  moreover have "?placeholder \<noteq> ?resolved" by simp
  ultimately have "transitions (map ?t (phase1 @ phase2)) = 1"
    using transitions_step by metis
  with a1 a2 ex show ?thesis by simp
qed

text \<open>The theorem at the example deployment: applied with no flag, then with a boolean
  flag, then with the string flag.\<close>

theorem bridge_name_two_phase_witness:
  "list_all (\<lambda>c. bridge_invoke_target example_account c example_lambda_props =
                    Some (Literal ''rtp-overlay-agentcore-invoker'')) [no_flag, boolean_flag]
   \<and> list_all (\<lambda>c. bridge_invoke_target example_account c example_lambda_props =
                    Some (ImportValue ''AgentCoreInvokerLambdaName'')) [string_flag]
   \<and> exports_of (invoker_outputs (AgentCoreInvokerStack example_account))
         ''AgentCoreInvokerLambdaName'' =
       Some (functionName_of (agentCoreInvokerLambda (AgentCoreInvokerStack example_account)))
   \<and> transitions (map (\<lambda>c. bridge_invoke_target example_account c example_lambda_props)
         ([no_flag, boolean_flag] @ [string_flag])) = 1"
proof -
  have p1: "list_all (\<lambda>c. \<not> agentcoreInvokerExists c) [no_flag, boolean_flag]"
    by (simp add: agentcoreInvokerExists_def tryGetContext_def no_flag_def boolean_flag_def)
  have p2: "list_all agentcoreInvokerExists [string_flag]"
    by (simp add: agentcoreInvokerExists_def tryGetContext_def string_flag_def)
  show ?thesis
    by (rule bridge_name_two_phase [OF p1 p2]) simp_all
qed

section \<open>Ingress to the database\<close>

text \<open>
  Claim C2 as stated fails: in the example account the first ingress rule of the database's
  security group has an address range as its source, so not every rule names a security
  group.
\<close>

theorem db_ingress_not_all_security_groups:
  "\<not> list_all from_security_group
       (ingressRules (dbSecurityGroup (InfrastructureStack example_account)))"
  by (simp add: db_ingress)

text \<open>
  Claim C2, amended. The database's security group has exactly two ingress rules, both for
  TCP port 5432: the first admits the address range of the VPC itself (its CIDR block),
  the second names the Lambda security group of the same stack as its source. No rule
  admits any other source.
\<close>

theorem db_ingress_sources:
  "map (\<lambda>r. (rule_peer r, rule_port r))
     (ingressRules (dbSecurityGroup (InfrastructureStack account))) =
   [(Peer_ipv4 (vpcCidrBlock (infra_vpc (InfrastructureStack account))), Port_tcp 5432),
    (Peer_securityGroup (sg_ref (lambdaSecurityGroup (InfrastructureStack account))),
     Port_tcp 5432)]"
  by (simp add: db_ingress infra_network)

lemma lambda_stack_sg:
  "sg_ref (lambdaSg (LambdaStack account ctx lp)) = ''LambdaStack/LambdaSecurityGroup''"
  by (simp add: LambdaStack_def Let_def SecurityGroup_def sg_ref_def RestApi_explicit
      addProxy_explicit)

lemma proxy_security_group:
  "securityGroups (apiLambda (LambdaStack account ctx lp)) =
     [sg_ref (lambdaSg (LambdaStack account ctx lp))]"
  "securityGroups (migrationLambda (LambdaStack account ctx lp)) =
     [sg_ref (lambdaSg (LambdaStack account ctx lp))]"
  "sg_ref (lambdaSg (LambdaStack account ctx lp)) \<noteq>
     sg_ref (lambdaSecurityGroup (InfrastructureStack account'))"
  by (simp_all add: apiLambda_shape migrationLambda_shape infra_network lambda_stack_sg)

section \<open>Gateways\<close>

text \<open>
  Claim C9. The \<open>POST\<close> methods of the stub gateway are exactly four, at the four paths
  of the payment network's operations, each forwarding to its own function; the four
  functions are distinct, and each has \<open>RESPONSE_MODE\<close> set to \<open>SUCCESS\<close>.
\<close>

theorem stub_post_methods:
  "map served (methods_with (stub_api VisaStubStack) ''POST'') =
     [(''/vpa/v1/accountManagement/VirtualCardRequisition'',
       LambdaIntegration (fn_id (virtualCardLambda VisaStubStack)) True),
      (''/vpa/v1/accountManagement/GetSecurityCode'',
       LambdaIntegration (fn_id (getSecurityCodeLambda VisaStubStack)) True),
      (''/vpa/v1/payment/ProcessPayments'',
       LambdaIntegration (fn_id (processPaymentsLambda VisaStubStack)) True),
      (''/vpa/v1/payment/GetPaymentDetails'',
       LambdaIntegration (fn_id (getPaymentDetailsLambda VisaStubStack)) True)]
   \<and> distinct (map fn_id [virtualCardLambda VisaStubStack, getSecurityCodeLambda VisaStubStack,
                         processPaymentsLambda VisaStubStack, getPaymentDetailsLambda VisaStubStack])
   \<and> list_all (\<lambda>f. env_value f ''RESPONSE_MODE'' = Some (Literal ''SUCCESS''))
        [virtualCardLambda VisaStubStack, getSecurityCodeLambda VisaStubStack,
         processPaymentsLambda VisaStubStack, getPaymentDetailsLambda VisaStubStack]"
  by (simp add: stub_api_methods stub_lambdas stub_function_shape methods_with_def served_def
      env_value_def)

text \<open>
  Claim C10. The proxying gateway declares exactly the binary media types
  \<open>multipart/form-data\<close>, \<open>image/*\<close> and \<open>application/pdf\<close>. Below its root it has one
  resource, the greedy proxy resource, whose default integration is the proxying function;
  the resource has an \<open>ANY\<close> method, and that method forwards to the proxying function. It
  is the only method of the gateway that forwards anywhere: the \<open>ANY\<close> method the library
  mirrors on the root and the preflight methods are on mock integrations.
\<close>

theorem proxy_api_surface:
  "binaryMediaTypes (api (LambdaStack account ctx lp)) =
     [''multipart/form-data'', ''image/*'', ''application/pdf'']
   \<and> child_resources (api (LambdaStack account ctx lp)) = [[''{proxy+}'']]
   \<and> defaultIntegration_of (api (LambdaStack account ctx lp)) [''{proxy+}''] =
       Some (LambdaIntegration (fn_id (apiLambda (LambdaStack account ctx lp))) True)
   \<and> map served (methods_with (api (LambdaStack account ctx lp)) ''ANY'') =
       [(''/'', MockIntegration),
        (''/{proxy+}'', LambdaIntegration (fn_id (apiLambda (LambdaStack account ctx lp))) True)]
   \<and> filter (\<lambda>x. method_integration x \<noteq> MockIntegration)
        (api_methods (api (LambdaStack account ctx lp))) =
       [\<lparr>method_path = [''{proxy+}''], httpMethod = ''ANY'',
         method_integration =
           LambdaIntegration (fn_id (apiLambda (LambdaStack account ctx lp))) True\<rparr>]"
  by (simp add: lambda_stack_api apiLambda_shape methods_with_def served_def child_resources_def
      defaultIntegration_of_def)

section \<open>The grant to invoke the bridge\<close>

lemma role_set_environment: "role (set_environment f k v) = role f"
  by (simp add: set_environment_def)

text \<open>
  Claim C8. Whatever the context, the proxying function has one grant of
  \<open>lambda:InvokeFunction\<close>, on the literal ARN of the function named
  \<open>rtp-overlay-agentcore-invoker\<close> in the account. Two contexts give the same role, and
  stacks that differ at most in the \<open>AGENTCORE_INVOKER_LAMBDA_NAME\<close> entry of the proxying
  function's environment.
\<close>

theorem invoke_grant_independent_of_context:
  "invoke_grants (apiLambda (LambdaStack account ctx lp)) =
     [\<lparr>actions = [''lambda:InvokeFunction''],
       resources = [Literal (''arn:aws:lambda:us-east-1:'' @ account @
                      '':function:rtp-overlay-agentcore-invoker'')],
       conditions = []\<rparr>]
   \<and> role (apiLambda (LambdaStack account ctx lp)) = role (apiLambda (LambdaStack account ctx' lp))
   \<and> LambdaStack account ctx lp =
       (LambdaStack account ctx' lp)
         \<lparr>apiLambda := set_environment (apiLambda (LambdaStack account ctx' lp))
            ''AGENTCORE_INVOKER_LAMBDA_NAME''
            (if agentcoreInvokerExists ctx then Fn_importValue ''AgentCoreInvokerLambdaName''
             else Literal ''rtp-overlay-agentcore-invoker'')\<rparr>"
proof -
  have g: "invoke_grants (apiLambda (LambdaStack account ctx lp)) =
     [\<lparr>actions = [''lambda:InvokeFunction''],
       resources = [Literal (''arn:aws:lambda:us-east-1:'' @ account @
                      '':function:rtp-overlay-agentcore-invoker'')],
       conditions = []\<rparr>]"
    by (simp add: invoke_grants_def apiLambda_statements)
  have c: "LambdaStack account ctx lp =
       (LambdaStack account ctx' lp)
         \<lparr>apiLambda := set_environment (apiLambda (LambdaStack account ctx' lp))
            ''AGENTCORE_INVOKER_LAMBDA_NAME''
            (if agentcoreInvokerExists ctx then Fn_importValue ''AgentCoreInvokerLambdaName''
             else Literal ''rtp-overlay-agentcore-invoker'')\<rparr>"
    by (rule lambda_stack_context)
  have "role (apiLambda (LambdaStack account ctx lp)) =
        role (set_environment (apiLambda (LambdaStack account ctx' lp))
            ''AGENTCORE_INVOKER_LAMBDA_NAME''
            (if agentcoreInvokerExists ctx then Fn_importValue ''AgentCoreInvokerLambdaName''
             else Literal ''rtp-overlay-agentcore-invoker''))"
    by (subst c) simp
  then have r: "role (apiLambda (LambdaStack account ctx lp)) =
                role (apiLambda (LambdaStack account ctx' lp))"
    by (simp only: role_set_environment)
  from g r c show ?thesis by (intro conjI)
qed

section \<open>Write access to the object stores\<close>

lemma no_write_statements:
  "list_all (\<lambda>st. \<not> list_ex s3_write_action (actions st)) (statements (role f))
     \<Longrightarrow> \<not> grants_write_on f b"
  by (induction "statements (role f)" arbitrary: f)
     (auto simp add: grants_write_on_def list_ex_iff list_all_iff)


lemmas write_defs = grants_write_on_def statement_on_bucket_def s3_write_action_def
  s3_read_action_def bucketArn_def arnForObjects_def BUCKET_READ_ACTIONS_def
  BUCKET_PUT_ACTIONS_def BUCKET_DELETE_ACTIONS_def

lemma other_units_write_nothing:
  "\<not> grants_write_on (grProcessingLambda (GRProcessingStack account region gp)) b"
  "\<not> grants_write_on (agentCoreInvokerLambda (AgentCoreInvokerStack account)) b"
  "\<not> grants_write_on (migrationLambda (LambdaStack account ctx lp)) b"
  "\<not> grants_write_on (stub_function fid h) b"
  by (rule no_write_statements,
      simp add: gr_statements bridge_shape migrationLambda_shape stub_function_shape
        s3_write_action_def s3_read_action_def BUCKET_READ_ACTIONS_def)+











section \<open>Read-only access of the ingestion units to their input\<close>

text \<open>
  Claim C6. For each ingestion function, the statements of its role that are about its
  input bucket are the one read grant, all of whose actions are read-only, and the function
  has no write access to its input bucket. This holds for every account, region and props,
  also when the goods-receipt stack is given a bucket name of its own.
\<close>

theorem ingestion_input_read_only:
  "map actions (bucket_statements (grProcessingLambda (GRProcessingStack account region gp))
                  (gr_inputBucket (GRProcessingStack account region gp))) = [BUCKET_READ_ACTIONS]
   \<and> list_all read_only_statement
        (bucket_statements (grProcessingLambda (GRProcessingStack account region gp))
           (gr_inputBucket (GRProcessingStack account region gp)))
   \<and> \<not> grants_write_on (grProcessingLambda (GRProcessingStack account region gp))
          (gr_inputBucket (GRProcessingStack account region gp))
   \<and> map actions (bucket_statements
          (invoiceProcessingLambda (InvoiceProcessingStack account region ip))
          (invoice_inputBucket (InvoiceProcessingStack account region ip))) = [BUCKET_READ_ACTIONS]
   \<and> list_all read_only_statement
        (bucket_statements (invoiceProcessingLambda (InvoiceProcessingStack account region ip))
           (invoice_inputBucket (InvoiceProcessingStack account region ip)))
   \<and> \<not> grants_write_on (invoiceProcessingLambda (InvoiceProcessingStack account region ip))
          (invoice_inputBucket (InvoiceProcessingStack account region ip))"
proof -
  have r: "list_all s3_read_action BUCKET_READ_ACTIONS"
    by (simp add: BUCKET_READ_ACTIONS_def s3_read_action_def)
  have g: "bucket_statements (grProcessingLambda (GRProcessingStack account region gp))
             (gr_inputBucket (GRProcessingStack account region gp)) =
           [\<lparr>actions = BUCKET_READ_ACTIONS,
             resources =
               [Literal (''arn:aws:s3:::'' @
                  or_default (inputBucketName gp) (''rtp-overlay-receipts-input-'' @ account)),
                Literal (''arn:aws:s3:::'' @
                  or_default (inputBucketName gp) (''rtp-overlay-receipts-input-'' @ account) @
                  ''/*'')],
             conditions = []\<rparr>]"
    by (simp add: bucket_statements_def statement_on_bucket_def gr_statements gr_bucket
        bucketArn_def arnForObjects_def)
  have i: "bucket_statements (invoiceProcessingLambda (InvoiceProcessingStack account region ip))
             (invoice_inputBucket (InvoiceProcessingStack account region ip)) =
           [\<lparr>actions = BUCKET_READ_ACTIONS,
             resources =
               [Literal (''arn:aws:s3:::rtp-overlay-invoices-input-'' @ account),
                Literal (''arn:aws:s3:::rtp-overlay-invoices-input-'' @ account @ ''/*'')],
             conditions = []\<rparr>]"
    by (simp add: bucket_statements_def statement_on_bucket_def invoice_statements
        invoice_buckets bucketArn_def arnForObjects_def)
  have gw: "\<not> grants_write_on (grProcessingLambda (GRProcessingStack account region gp))
              (gr_inputBucket (GRProcessingStack account region gp))"
    by (rule other_units_write_nothing)
  have iw: "\<not> grants_write_on (invoiceProcessingLambda (InvoiceProcessingStack account region ip))
              (invoice_inputBucket (InvoiceProcessingStack account region ip))"
    by (simp add: write_defs invoice_statements invoice_buckets)
  from r g i gw iw show ?thesis
    by (simp add: read_only_statement_def)
qed

section \<open>Key-use grants\<close>

lemma no_key_use:
  "key_use_grants (invoiceProcessingLambda (InvoiceProcessingStack account region ip)) = []"
  "key_use_grants (grProcessingLambda (GRProcessingStack account region gp)) = []"
  "key_use_grants (agentCoreInvokerLambda (AgentCoreInvokerStack account)) = []"
  "key_use_grants (migrationLambda (LambdaStack account ctx lp)) = []"
  "key_use_grants (stub_function fid h) = []"
  by (simp_all add: key_use_grants_def kms_action_def invoice_statements gr_statements
      bridge_shape migrationLambda_shape stub_function_shape BUCKET_READ_ACTIONS_def
      BUCKET_PUT_ACTIONS_def BUCKET_DELETE_ACTIONS_def)

lemma api_key_use:
  "key_use_grants (apiLambda (LambdaStack account ctx lp)) =
     [\<lparr>actions = [''kms:Encrypt'', ''kms:Decrypt'', ''kms:DescribeKey''],
       resources = [Literal (''arn:aws:kms:us-east-1:'' @ account @ '':key/*'')],
       conditions = [(''StringEquals'',
                       [(''kms:RequestAlias'', ''alias/rtp-overlay-payment-cards'')])]\<rparr>]"
  by (simp add: key_use_grants_def kms_action_def apiLambda_statements)

text \<open>
  Claim C5. Every key-use grant of every compute unit carries a \<open>StringEquals\<close> condition
  on \<open>kms:RequestAlias\<close>. There is one such grant in the whole deployment, the proxying
  function's: encrypt, decrypt and describe over the wildcard key ARN of the account,
  under the condition that the request alias is \<open>alias/rtp-overlay-payment-cards\<close>.
\<close>

theorem key_use_grants_alias_restricted:
  "list_all (\<lambda>f. list_all alias_restricted (key_use_grants f))
     (computeUnits account region ctx lp ip gp)
   \<and> concat (map key_use_grants (computeUnits account region ctx lp ip gp)) =
       key_use_grants (apiLambda (LambdaStack account ctx lp))
   \<and> map (\<lambda>st. (actions st, resources st,
                  condition_value st ''StringEquals'' ''kms:RequestAlias''))
       (key_use_grants (apiLambda (LambdaStack account ctx lp))) =
     [([''kms:Encrypt'', ''kms:Decrypt'', ''kms:DescribeKey''],
       [Literal (''arn:aws:kms:us-east-1:'' @ account @ '':key/*'')],
       Some ''alias/rtp-overlay-payment-cards'')]"
  by (simp add: computeUnits_def no_key_use api_key_use stub_lambdas alias_restricted_def
      condition_value_def)

section \<open>Network attachment\<close>

text \<open>
  Claim C7. The compute units attached to a network are the proxying function and the
  migration function, and no other: both ingestion functions, the bridge and the four stub
  functions have no VPC and no security group.
\<close>

theorem network_attachment:
  "map fn_id (filter attached (computeUnits account region ctx lp ip gp)) =
     [''ApiLambda'', ''MigrationLambda'']
   \<and> list_all (\<lambda>f. vpc f = None \<and> securityGroups f = [])
        [invoiceProcessingLambda (InvoiceProcessingStack account region ip),
         grProcessingLambda (GRProcessingStack account region gp),
         agentCoreInvokerLambda (AgentCoreInvokerStack account),
         virtualCardLambda VisaStubStack,
         processPaymentsLambda VisaStubStack,
         getPaymentDetailsLambda VisaStubStack,
         getSecurityCodeLambda VisaStubStack]"
  by (simp add: computeUnits_def attached_def invoice_shape gr_shape bridge_shape stub_lambdas
      stub_function_shape apiLambda_shape migrationLambda_shape)

end
